theory Spec2Isabelle
  imports Complex_Main
begin

section \<open>Values, errors and the Python runtime\<close>

text \<open>
  A decoded JSON value as \<open>json.loads\<close> produces it: a JSON integer is a Python \<open>int\<close>
  (unbounded), a JSON number with a fraction or an exponent is a Python \<open>float\<close>. A float
  is represented by the real number it denotes; \<open>nan\<close> and the infinities are not values
  of the model.
\<close>

datatype jvalue =
    JNull
  | JBool bool
  | JInt int
  | JFloat real
  | JStr string
  | JArr "jvalue list"
  | JObj "(string \<times> jvalue) list"

text \<open>A transaction is the Python dict built from the top-level JSON object.\<close>

type_synonym txn = "string \<rightharpoonup> jvalue"

datatype py_error =
    DecodeError
  | AttributeError
  | KeyError
  | ValueError
  | TypeError
  | OverflowError
  | WatermarkInsertError
  | RowInsertError

text \<open>
  What the code takes from the Python runtime and the process it runs in:
  \<^item> \<open>str_float s\<close>: \<open>float(s)\<close> for a string, \<open>None\<close> where it raises \<open>ValueError\<close>
    (strings that denote \<open>nan\<close> or an infinity are not considered);
  \<^item> \<open>int_float n\<close>: \<open>float(n)\<close> for an \<open>int\<close>, the nearest double, \<open>None\<close> where it
    raises \<open>OverflowError\<close>;
  \<^item> \<open>fsub x y\<close>: the double \<open>x - y\<close> of two doubles, that is the rounded difference,
    \<open>None\<close> when the result is an infinity;
  \<^item> \<open>lit_001\<close>: the value of the literal \<open>0.01\<close>, the double nearest to 1/100;
  \<^item> \<open>local_epoch\<close>: \<open>datetime(1970, 1, 1).timestamp()\<close>, the POSIX timestamp of
    midnight, 1 January 1970 in the local zone of the process (0 in UTC, -3600 one hour
    east of it).
\<close>

record py_env =
  str_float :: "string \<Rightarrow> real option"
  int_float :: "int \<Rightarrow> real option"
  fsub :: "real \<Rightarrow> real \<Rightarrow> real option"
  lit_001 :: real
  local_epoch :: real

text \<open>A Python number: an \<open>int\<close> (a \<open>bool\<close> counts as the int 0 or 1) or a \<open>float\<close>.\<close>

datatype pynum = PInt int | PFloat real

fun as_num :: "jvalue \<Rightarrow> pynum option" where
  "as_num (JInt n) = Some (PInt n)"
| "as_num (JFloat x) = Some (PFloat x)"
| "as_num (JBool b) = Some (PInt (if b then 1 else 0))"
| "as_num v = None"

fun num_val :: "pynum \<Rightarrow> real" where
  "num_val (PInt n) = of_int n"
| "num_val (PFloat x) = x"

text \<open>The number a value denotes; comparisons between ints and floats are exact.\<close>

definition py_num :: "jvalue \<Rightarrow> real option" where
  "py_num v = map_option num_val (as_num v)"

text \<open>\<open>float(v)\<close>.\<close>

fun py_float :: "py_env \<Rightarrow> jvalue \<Rightarrow> py_error + real" where
  "py_float env (JFloat x) = Inr x"
| "py_float env (JInt n) =
     (case int_float env n of None \<Rightarrow> Inl OverflowError | Some r \<Rightarrow> Inr r)"
| "py_float env (JBool b) = Inr (if b then 1 else 0)"
| "py_float env (JStr s) =
     (case str_float env s of None \<Rightarrow> Inl ValueError | Some r \<Rightarrow> Inr r)"
| "py_float env v = Inl TypeError"

definition bind_res :: "'e + 'a \<Rightarrow> ('a \<Rightarrow> 'e + 'b) \<Rightarrow> 'e + 'b" where
  "bind_res r f = (case r of Inl e \<Rightarrow> Inl e | Inr v \<Rightarrow> f v)"

text \<open>\<open>d[k]\<close>: a missing key raises \<open>KeyError\<close>.\<close>

definition item :: "txn \<Rightarrow> string \<Rightarrow> py_error + jvalue" where
  "item d k = (case d k of None \<Rightarrow> Inl KeyError | Some v \<Rightarrow> Inr v)"

text \<open>An operand of \<open><\<close> or \<open>>\<close> against a number: anything but a number raises \<open>TypeError\<close>.\<close>

definition num :: "jvalue \<Rightarrow> py_error + real" where
  "num v = (case py_num v of None \<Rightarrow> Inl TypeError | Some r \<Rightarrow> Inr r)"

text \<open>An operand of \<open>-\<close>: anything but a number raises \<open>TypeError\<close>.\<close>

definition operand :: "jvalue \<Rightarrow> py_error + pynum" where
  "operand v = (case as_num v of None \<Rightarrow> Inl TypeError | Some p \<Rightarrow> Inr p)"

text \<open>\<open>v == 0\<close> never raises: a value that is not a number is simply different from 0.\<close>

definition eq_zero :: "jvalue \<Rightarrow> bool" where
  "eq_zero v = (case py_num v of None \<Rightarrow> False | Some r \<Rightarrow> r = 0)"

text \<open>
  The operand of a float operation: a float as it is, an int converted, which raises
  \<open>OverflowError\<close> beyond the double range.
\<close>

definition to_float :: "py_env \<Rightarrow> pynum \<Rightarrow> py_error + real" where
  "to_float env p =
     (case p of
        PFloat x \<Rightarrow> Inr x
      | PInt n \<Rightarrow> (case int_float env n of None \<Rightarrow> Inl OverflowError | Some r \<Rightarrow> Inr r))"

text \<open>
  \<open>a - b\<close>: exact on two ints, the double difference otherwise. The result \<open>None\<close> stands
  for an infinity.
\<close>

fun py_sub :: "py_env \<Rightarrow> pynum \<Rightarrow> pynum \<Rightarrow> py_error + pynum option" where
  "py_sub env (PInt a) (PInt b) = Inr (Some (PInt (a - b)))"
| "py_sub env a b =
     bind_res (to_float env a) (\<lambda>x.
     bind_res (to_float env b) (\<lambda>y.
       Inr (map_option PFloat (fsub env x y))))"

section \<open>Rule engine\<close>

text \<open>
  \<open>detect_fraud\<close>, rule by rule and in the source's order of evaluation. Rule 3 evaluates
  its condition and then does nothing (\<open>pass\<close>).
\<close>

definition rule1 :: "txn \<Rightarrow> py_error + bool" where
  "rule1 t =
     bind_res (item t ''type'') (\<lambda>ty.
       if ty = JStr ''TRANSFER''
       then bind_res (item t ''amount'') (\<lambda>a. bind_res (num a) (\<lambda>x. Inr (x > 200000)))
       else Inr False)"

definition rule2 :: "txn \<Rightarrow> py_error + bool" where
  "rule2 t =
     bind_res (item t ''newbalanceOrig'') (\<lambda>nb.
       if eq_zero nb
       then bind_res (item t ''oldbalanceOrg'') (\<lambda>ob. bind_res (num ob) (\<lambda>x. Inr (x > 0)))
       else Inr False)"

definition rule3 :: "txn \<Rightarrow> py_error + bool" where
  "rule3 t =
     bind_res (item t ''type'') (\<lambda>ty.
       if ty = JStr ''TRANSFER''
       then bind_res (item t ''amount'') (\<lambda>a. bind_res (num a) (\<lambda>x. Inr (x < 10)))
       else Inr False)"

text \<open>
  \<open>abs(old - new - amount) > 0.01\<close>. Once the first difference is an infinity, so is the
  second (the amount is finite) and the comparison holds.
\<close>

definition rule4 :: "py_env \<Rightarrow> txn \<Rightarrow> py_error + bool" where
  "rule4 env t =
     bind_res (item t ''oldbalanceOrg'') (\<lambda>ob.
     bind_res (item t ''newbalanceOrig'') (\<lambda>nb.
     bind_res (operand ob) (\<lambda>x.
     bind_res (operand nb) (\<lambda>y.
     bind_res (py_sub env x y) (\<lambda>d1.
     bind_res (item t ''amount'') (\<lambda>a.
     bind_res (operand a) (\<lambda>z.
       case d1 of
         None \<Rightarrow> bind_res (to_float env z) (\<lambda>w. Inr True)
       | Some p \<Rightarrow>
           bind_res (py_sub env p z) (\<lambda>d2.
             case d2 of
               None \<Rightarrow> Inr True
             | Some m \<Rightarrow> Inr (\<bar>num_val m\<bar> > lit_001 env)))))))))"

definition detect_fraud :: "py_env \<Rightarrow> txn \<Rightarrow> py_error + bool" where
  "detect_fraud env t =
     bind_res (rule1 t) (\<lambda>r1.
       if r1 then Inr True
       else bind_res (rule2 t) (\<lambda>r2.
         if r2 then Inr True
         else bind_res (rule3 t) (\<lambda>r3.
           bind_res (rule4 env t) (\<lambda>r4.
             if r4 then Inr True else Inr False))))"

text \<open>
  \<open>transaction[k] = float(transaction[k])\<close> assigns into the dict it was given. The model
  passes the dict's contents through: the first component of the result is the contents of
  the argument dict after the statement, the second the exception raised, if any.
\<close>

definition set_float :: "py_env \<Rightarrow> string \<Rightarrow> txn \<Rightarrow> txn \<times> py_error option" where
  "set_float env k t =
     (case item t k of
        Inl e \<Rightarrow> (t, Some e)
      | Inr v \<Rightarrow> (case py_float env v of
                   Inl e \<Rightarrow> (t, Some e)
                 | Inr r \<Rightarrow> (t(k \<mapsto> JFloat r), None)))"

definition and_then ::
  "txn \<times> py_error option \<Rightarrow> (txn \<Rightarrow> txn \<times> py_error option) \<Rightarrow> txn \<times> py_error option" where
  "and_then r f = (case r of (t, Some e) \<Rightarrow> (t, Some e) | (t, None) \<Rightarrow> f t)"

definition set_detected_fraud :: "py_env \<Rightarrow> txn \<Rightarrow> txn \<times> py_error option" where
  "set_detected_fraud env t =
     (case detect_fraud env t of
        Inl e \<Rightarrow> (t, Some e)
      | Inr b \<Rightarrow> (t(''detected_fraud'' \<mapsto> JBool b), None))"

text \<open>
  \<open>process_transaction\<close> returns the dict object it was given, so on a normal return the
  first component is at once the caller's argument after the call and the returned value.
\<close>

definition process_transaction :: "py_env \<Rightarrow> txn \<Rightarrow> txn \<times> py_error option" where
  "process_transaction env t =
     and_then (set_float env ''amount'' t) (\<lambda>t.
     and_then (set_float env ''oldbalanceOrg'' t) (\<lambda>t.
     and_then (set_float env ''newbalanceOrig'' t) (\<lambda>t.
     and_then (set_float env ''oldbalanceDest'' t) (\<lambda>t.
     and_then (set_float env ''newbalanceDest'' t) (\<lambda>t.
       set_detected_fraud env t)))))"

section \<open>Watermark store\<close>

text \<open>
  The watermark table holds one \<open>last_processed_timestamp\<close> per row, in insertion order.
  \<open>SELECT MAX(...)\<close> gives NULL over an empty table.
\<close>

fun sql_max :: "real list \<Rightarrow> real option" where
  "sql_max [] = None"
| "sql_max (x # xs) = Some (fold max xs x)"

text \<open>
  \<open>result[0] if result and result[0] else datetime(1970, 1, 1).timestamp()\<close>: a NULL
  maximum and a maximum of 0 are both falsy and give the default.
\<close>

definition get_last_watermark :: "py_env \<Rightarrow> real list \<Rightarrow> real" where
  "get_last_watermark env tbl =
     (case sql_max tbl of
        None \<Rightarrow> local_epoch env
      | Some m \<Rightarrow> if m \<noteq> 0 then m else local_epoch env)"

text \<open>
  \<open>update_watermark\<close> appends one row; \<open>errors\<close> is what \<open>insert_rows_json\<close> reports
  (\<open>True\<close> for a non-empty error list, after which the row is not stored and the function
  raises).
\<close>

definition update_watermark :: "bool \<Rightarrow> real \<Rightarrow> real list \<Rightarrow> py_error + real list" where
  "update_watermark errors timestamp tbl =
     (if errors then Inl WatermarkInsertError else Inr (tbl @ [timestamp]))"

section \<open>Batch processor\<close>

text \<open>
  What \<open>json.loads(message.data.decode('utf-8'))\<close> does with a message: it raises, or it
  gives a value, which only for a JSON object is a dict.
\<close>

datatype payload = BadJson | NonObject jvalue | Object txn

record message =
  ack_id :: string
  data :: payload

text \<open>
  The state the tasks act on: the acknowledgements sent to the queue (in order), the rows
  of the watermark table, the rows of the target table, and the values tasks have returned
  (XCom), by task id.
\<close>

record world =
  acked :: "string list"
  watermark_table :: "real list"
  warehouse :: "txn list"
  xcom :: "string \<rightharpoonup> txn list"

definition acknowledge :: "string \<Rightarrow> world \<Rightarrow> world" where
  "acknowledge a s = s\<lparr>acked := acked s @ [a]\<rparr>"

text \<open>\<open>data.get('step', 0)\<close>.\<close>

definition get_step :: "txn \<Rightarrow> jvalue" where
  "get_step d = (case d ''step'' of None \<Rightarrow> JInt 0 | Some v \<Rightarrow> v)"

text \<open>
  The \<open>for\<close> loop of \<open>pull_and_process_messages\<close>, with \<open>processed_data\<close> and
  \<open>new_watermark\<close> as accumulators. An exception leaves the loop at once: the state
  reached so far stays, and nothing is returned.
\<close>

fun message_loop ::
  "py_env \<Rightarrow> real \<Rightarrow> message list \<Rightarrow> txn list \<Rightarrow> real \<Rightarrow> world
     \<Rightarrow> world \<times> (py_error + txn list \<times> real)" where
  "message_loop env last_watermark [] processed_data new_watermark s =
     (s, Inr (processed_data, new_watermark))"
| "message_loop env last_watermark (m # ms) processed_data new_watermark s =
     (case data m of
        BadJson \<Rightarrow> (s, Inl DecodeError)
      | NonObject v \<Rightarrow> (s, Inl AttributeError)
      | Object d \<Rightarrow>
          (case py_num (get_step d) of
             None \<Rightarrow> (s, Inl TypeError)
           | Some message_timestamp \<Rightarrow>
               if message_timestamp > last_watermark
               then (case process_transaction env d of
                       (d', Some e) \<Rightarrow> (s, Inl e)
                     | (d', None) \<Rightarrow>
                         message_loop env last_watermark ms (processed_data @ [d'])
                           (max new_watermark message_timestamp) (acknowledge (ack_id m) s))
               else message_loop env last_watermark ms processed_data new_watermark
                      (acknowledge (ack_id m) s)))"

text \<open>
  \<open>pull_and_process_messages\<close>. \<open>messages\<close> is what \<open>pubsub_hook.pull\<close> returned (at most
  100 messages) and \<open>wm_errors\<close> what the watermark insert reports in this run.
\<close>

definition pull_and_process_messages ::
  "py_env \<Rightarrow> bool \<Rightarrow> message list \<Rightarrow> world \<Rightarrow> world \<times> (py_error + txn list)" where
  "pull_and_process_messages env wm_errors messages s =
     (let last_watermark = get_last_watermark env (watermark_table s) in
      case message_loop env last_watermark messages [] last_watermark s of
        (s1, Inl e) \<Rightarrow> (s1, Inl e)
      | (s1, Inr (processed_data, new_watermark)) \<Rightarrow>
          if new_watermark > last_watermark
          then (case update_watermark wm_errors new_watermark (watermark_table s1) of
                  Inl e \<Rightarrow> (s1, Inl e)
                | Inr tbl \<Rightarrow> (s1\<lparr>watermark_table := tbl\<rparr>, Inr processed_data))
          else (s1, Inr processed_data))"

section \<open>Sink writer and DAG\<close>

text \<open>
  \<open>insert_to_bigquery\<close> reads the value returned by the task named
  \<open>pull_pubsub_messages\<close>; \<open>xcom_pull\<close> gives \<open>None\<close> when no such value exists.
  \<open>insert_ok rows\<close> tells whether building the rows and \<open>client.insert_rows\<close> complete
  with an empty error list; otherwise the task raises and the table is left as it was.
\<close>

definition insert_to_bigquery :: "(txn list \<Rightarrow> bool) \<Rightarrow> world \<Rightarrow> world \<times> (py_error + unit)" where
  "insert_to_bigquery insert_ok s =
     (case xcom s ''pull_pubsub_messages'' of
        None \<Rightarrow> (s, Inr ())
      | Some processed_data \<Rightarrow>
          if processed_data = [] then (s, Inr ())
          else if insert_ok processed_data
               then (s\<lparr>warehouse := warehouse s @ processed_data\<rparr>, Inr ())
               else (s, Inl RowInsertError))"

text \<open>
  One run of the DAG, \<open>pull_and_process_task >> insert_task\<close>: the first task's return
  value is stored under its task id \<open>pull_and_process_messages\<close>, and the second task runs
  only when the first has succeeded.
\<close>

definition dag_run ::
  "py_env \<Rightarrow> bool \<Rightarrow> (txn list \<Rightarrow> bool) \<Rightarrow> message list \<Rightarrow> world
     \<Rightarrow> world \<times> (py_error + unit)" where
  "dag_run env wm_errors insert_ok messages s =
     (case pull_and_process_messages env wm_errors messages s of
        (s1, Inl e) \<Rightarrow> (s1, Inl e)
      | (s1, Inr processed_data) \<Rightarrow>
          insert_to_bigquery insert_ok
            (s1\<lparr>xcom := (xcom s1)(''pull_and_process_messages'' \<mapsto> processed_data)\<rparr>))"

section \<open>Notions used to state the properties\<close>

text \<open>
  \<open>abs(ob - nb - a) > 0.01\<close> on three floats, as the runtime evaluates it: two rounded
  subtractions, then a comparison with the double the literal denotes.
\<close>

definition balance_mismatch :: "py_env \<Rightarrow> real \<Rightarrow> real \<Rightarrow> real \<Rightarrow> bool" where
  "balance_mismatch env ob nb a =
     (case fsub env ob nb of
        None \<Rightarrow> True
      | Some d \<Rightarrow> (case fsub env d a of None \<Rightarrow> True | Some m \<Rightarrow> \<bar>m\<bar> > lit_001 env))"

text \<open>
  What one pass through the loop body does with a message before it is acknowledged: it
  raises, it skips the message (\<open>None\<close>), or it scores it and yields the processed
  transaction with the message's step.
\<close>

definition body_result :: "py_env \<Rightarrow> real \<Rightarrow> message \<Rightarrow> py_error + (txn \<times> real) option" where
  "body_result env w0 m =
     (case data m of
        BadJson \<Rightarrow> Inl DecodeError
      | NonObject v \<Rightarrow> Inl AttributeError
      | Object d \<Rightarrow>
          (case py_num (get_step d) of
             None \<Rightarrow> Inl TypeError
           | Some ts \<Rightarrow>
               if ts > w0
               then (case process_transaction env d of
                       (d', Some e) \<Rightarrow> Inl e
                     | (d', None) \<Rightarrow> Inr (Some (d', ts)))
               else Inr None))"

text \<open>A message passes when the loop body handles it without raising.\<close>

definition passes :: "py_env \<Rightarrow> real \<Rightarrow> message \<Rightarrow> bool" where
  "passes env w0 m = (case body_result env w0 m of Inl e \<Rightarrow> False | Inr r \<Rightarrow> True)"

text \<open>The processed transactions, with their steps, of the messages the loop scores.\<close>

fun included :: "py_env \<Rightarrow> real \<Rightarrow> message list \<Rightarrow> (txn \<times> real) list" where
  "included env w0 [] = []"
| "included env w0 (m # ms) =
     (case body_result env w0 m of
        Inr (Some p) \<Rightarrow> p # included env w0 ms
      | _ \<Rightarrow> included env w0 ms)"

text \<open>
  The numeric step of a message (\<open>None\<close> when there is no dict or the step is not a
  number), whether it lies above a watermark, and the transaction scoring makes of it.
\<close>

definition step_of :: "message \<Rightarrow> real option" where
  "step_of m = (case data m of Object d \<Rightarrow> py_num (get_step d) | _ \<Rightarrow> None)"

definition newer :: "real \<Rightarrow> message \<Rightarrow> bool" where
  "newer w0 m = (case step_of m of Some ts \<Rightarrow> ts > w0 | None \<Rightarrow> False)"

definition step_num :: "message \<Rightarrow> real" where
  "step_num m = (case step_of m of Some ts \<Rightarrow> ts | None \<Rightarrow> 0)"

definition scored :: "py_env \<Rightarrow> message \<Rightarrow> txn" where
  "scored env m = (case data m of Object d \<Rightarrow> fst (process_transaction env d) | _ \<Rightarrow> Map.empty)"


section \<open>Example data\<close>

text \<open>
  A runtime that agrees with CPython on the values of the examples: \<open>'100.0'\<close> denotes
  100, \<open>'99.99'\<close> the double \<open>7036170730324623 / 2^46\<close>, and \<open>'not_a_number'\<close> is
  rejected; the ints and the differences that occur are doubles, so conversion and
  subtraction are exact on them; the literal \<open>0.01\<close> is the double
  \<open>5764607523034235 / 2^59\<close>. The process runs in UTC, or one hour east of it.
\<close>

definition double_001 :: real where
  "double_001 = 5764607523034235 / 2 ^ 59"

definition double_9999 :: real where
  "double_9999 = 7036170730324623 / 2 ^ 46"

definition example_env :: py_env where
  "example_env =
     \<lparr>str_float = (\<lambda>s. if s = ''100.0'' then Some 100
                       else if s = ''99.99'' then Some double_9999 else None),
      int_float = (\<lambda>n. Some (of_int n)),
      fsub = (\<lambda>x y. Some (x - y)),
      lit_001 = double_001,
      local_epoch = 0\<rparr>"

definition example_env_east :: py_env where
  "example_env_east = example_env\<lparr>local_epoch := - 3600\<rparr>"

definition example_txn :: "int \<Rightarrow> string \<Rightarrow> jvalue \<Rightarrow> txn" where
  "example_txn st ty amt =
     [''step'' \<mapsto> JInt st, ''type'' \<mapsto> JStr ty, ''amount'' \<mapsto> amt,
      ''oldbalanceOrg'' \<mapsto> JFloat 1000, ''newbalanceOrig'' \<mapsto> JFloat 900,
      ''oldbalanceDest'' \<mapsto> JFloat 0, ''newbalanceDest'' \<mapsto> JFloat 100]"

definition example_boundary :: "real \<Rightarrow> txn" where
  "example_boundary amt =
     [''type'' \<mapsto> JStr ''PAYMENT'', ''amount'' \<mapsto> JFloat amt,
      ''oldbalanceOrg'' \<mapsto> JFloat 0, ''newbalanceOrig'' \<mapsto> JFloat 0]"

definition example_no_step :: txn where
  "example_no_step =
     [''type'' \<mapsto> JStr ''PAYMENT'', ''amount'' \<mapsto> JFloat 100,
      ''oldbalanceOrg'' \<mapsto> JFloat 1000, ''newbalanceOrig'' \<mapsto> JFloat 900,
      ''oldbalanceDest'' \<mapsto> JFloat 0, ''newbalanceDest'' \<mapsto> JFloat 100]"

definition example_msg :: "string \<Rightarrow> txn \<Rightarrow> message" where
  "example_msg a d = \<lparr>ack_id = a, data = Object d\<rparr>"

definition example_world :: "real list \<Rightarrow> world" where
  "example_world tbl = \<lparr>acked = [], watermark_table = tbl, warehouse = [], xcom = Map.empty\<rparr>"

definition example_batch :: "message list" where
  "example_batch =
     [example_msg ''a90'' (example_txn 90 ''PAYMENT'' (JFloat 100)),
      example_msg ''a101'' (example_txn 101 ''PAYMENT'' (JStr ''100.0'')),
      example_msg ''a105'' (example_txn 105 ''TRANSFER'' (JFloat 250000))]"

definition example_bad_batch :: "message list" where
  "example_bad_batch =
     [example_msg ''a1'' (example_txn 1 ''PAYMENT'' (JFloat 100)),
      example_msg ''a2'' (example_txn 2 ''PAYMENT'' (JStr ''not_a_number'')),
      example_msg ''a3'' (example_txn 3 ''PAYMENT'' (JFloat 100))]"

lemmas example_defs = example_env_def example_env_east_def double_001_def double_9999_def
  example_txn_def
  example_msg_def example_world_def example_batch_def example_bad_batch_def

lemmas engine_defs = detect_fraud_def rule1_def rule2_def rule3_def rule4_def bind_res_def
  item_def num_def operand_def py_num_def to_float_def eq_zero_def process_transaction_def
  and_then_def set_float_def set_detected_fraud_def

lemmas run_defs = dag_run_def insert_to_bigquery_def pull_and_process_messages_def
  get_last_watermark_def update_watermark_def get_step_def acknowledge_def
  passes_def body_result_def py_num_def

section \<open>Auxiliary facts\<close>

lemma message_loop_Cons:
  "message_loop env w0 (m # ms) pd nw s =
     (case body_result env w0 m of
        Inl e \<Rightarrow> (s, Inl e)
      | Inr None \<Rightarrow> message_loop env w0 ms pd nw (acknowledge (ack_id m) s)
      | Inr (Some (d', ts)) \<Rightarrow>
          message_loop env w0 ms (pd @ [d']) (max nw ts) (acknowledge (ack_id m) s))"
  by (simp add: body_result_def split: payload.splits option.splits prod.splits)

lemma message_loop_passes:
  "\<forall>m \<in> set ms. passes env w0 m \<Longrightarrow>
   message_loop env w0 ms pd nw s =
     (s\<lparr>acked := acked s @ map ack_id ms\<rparr>,
      Inr (pd @ map fst (included env w0 ms), foldl max nw (map snd (included env w0 ms))))"
proof (induction ms arbitrary: pd nw s)
  case Nil
  then show ?case by simp
next
  case (Cons m ms)
  then have ih: "\<And>pd nw s. message_loop env w0 ms pd nw s =
     (s\<lparr>acked := acked s @ map ack_id ms\<rparr>,
      Inr (pd @ map fst (included env w0 ms), foldl max nw (map snd (included env w0 ms))))"
    by simp
  from Cons.prems have "passes env w0 m" by simp
  then show ?case
    by (auto simp: message_loop_Cons passes_def ih acknowledge_def
        simp del: message_loop.simps(2) split: sum.splits option.splits)
qed

lemma message_loop_fails:
  "\<forall>m \<in> set pre. passes env w0 m \<Longrightarrow> body_result env w0 m = Inl e \<Longrightarrow>
   message_loop env w0 (pre @ m # post) pd nw s = (s\<lparr>acked := acked s @ map ack_id pre\<rparr>, Inl e)"
proof (induction pre arbitrary: pd nw s)
  case Nil
  then show ?case by (simp add: message_loop_Cons del: message_loop.simps(2))
next
  case (Cons x pre)
  then have ih: "\<And>pd nw s. message_loop env w0 (pre @ m # post) pd nw s =
      (s\<lparr>acked := acked s @ map ack_id pre\<rparr>, Inl e)"
    by simp
  from Cons.prems have "passes env w0 x" by simp
  then show ?case
    by (auto simp: message_loop_Cons passes_def ih acknowledge_def
        simp del: message_loop.simps(2) split: sum.splits option.splits)
qed

lemma message_loop_Inr_passes:
  "message_loop env w0 ms pd nw s = (s', Inr r) \<Longrightarrow> m \<in> set ms \<Longrightarrow> passes env w0 m"
proof (induction ms arbitrary: pd nw s)
  case Nil
  then show ?case by simp
next
  case (Cons x xs)
  from Cons.prems(1) have px: "passes env w0 x"
    by (auto simp: message_loop_Cons passes_def simp del: message_loop.simps(2)
        split: sum.splits option.splits)
  from Cons.prems(1) obtain pd' nw' s1 where "message_loop env w0 xs pd' nw' s1 = (s', Inr r)"
    by (auto simp: message_loop_Cons simp del: message_loop.simps(2)
        split: sum.splits option.splits)
  with Cons.IH Cons.prems(2) px show ?case by auto
qed

lemma get_last_watermark_Max:
  "get_last_watermark env tbl =
     (if tbl = [] \<or> Max (set tbl) = 0 then local_epoch env else Max (set tbl))"
proof (cases tbl)
  case Nil
  then show ?thesis by (simp add: get_last_watermark_def)
next
  case (Cons x xs)
  have "fold max xs x = Max (set (x # xs))" by (simp only: Max.set_eq_fold)
  with Cons show ?thesis by (simp add: get_last_watermark_def)
qed

lemma get_last_watermark_append:
  assumes "get_last_watermark env tbl < nw" and "0 < nw"
  shows "get_last_watermark env (tbl @ [nw]) = nw"
proof (cases "tbl = []")
  case True
  with assms(2) show ?thesis by (simp add: get_last_watermark_Max)
next
  case False
  have "Max (set tbl) < nw"
  proof (cases "Max (set tbl) = 0")
    case True
    with assms(2) show ?thesis by simp
  next
    case nz: False
    with False assms(1) show ?thesis by (simp add: get_last_watermark_Max)
  qed
  then have "max nw (Max (set tbl)) = nw" by simp
  with False assms(2) show ?thesis by (simp add: get_last_watermark_Max)
qed

lemma set_float_other:
  "set_float env k t = (t', r) \<Longrightarrow> k' \<noteq> k \<Longrightarrow> t' k' = t k'"
  by (auto simp: set_float_def split: sum.splits)

lemma set_float_ok:
  "t k = Some v \<Longrightarrow> py_float env v = Inr r \<Longrightarrow> set_float env k t = (t(k \<mapsto> JFloat r), None)"
  by (simp add: set_float_def item_def)

lemma and_then_None:
  "and_then r f = (t', None) \<Longrightarrow> \<exists>t1. r = (t1, None) \<and> f t1 = (t', None)"
  by (cases r) (auto simp: and_then_def split: option.splits)

lemma set_detected_fraud_other:
  "set_detected_fraud env t = (t', r) \<Longrightarrow> k' \<noteq> ''detected_fraud'' \<Longrightarrow> t' k' = t k'"
  by (auto simp: set_detected_fraud_def split: sum.splits)

lemma process_transaction_other:
  assumes "process_transaction env t = (t', None)"
    and "k \<notin> {''amount'', ''oldbalanceOrg'', ''newbalanceOrig'', ''oldbalanceDest'',
               ''newbalanceDest'', ''detected_fraud''}"
  shows "t' k = t k"
proof -
  from assms(1) obtain t1 t2 t3 t4 t5 where
    s1: "set_float env ''amount'' t = (t1, None)" and
    s2: "set_float env ''oldbalanceOrg'' t1 = (t2, None)" and
    s3: "set_float env ''newbalanceOrig'' t2 = (t3, None)" and
    s4: "set_float env ''oldbalanceDest'' t3 = (t4, None)" and
    s5: "set_float env ''newbalanceDest'' t4 = (t5, None)" and
    s6: "set_detected_fraud env t5 = (t', None)"
    unfolding process_transaction_def by (blast dest: and_then_None)
  from assms(2) have
    "k \<noteq> ''amount''" "k \<noteq> ''oldbalanceOrg''" "k \<noteq> ''newbalanceOrig''"
    "k \<noteq> ''oldbalanceDest''" "k \<noteq> ''newbalanceDest''" "k \<noteq> ''detected_fraud''"
    by auto
  then show ?thesis
    using set_float_other [OF s1] set_float_other [OF s2] set_float_other [OF s3]
      set_float_other [OF s4] set_float_other [OF s5] set_detected_fraud_other [OF s6]
    by simp
qed

lemma rule4_floats:
  assumes "t ''amount'' = Some (JFloat a)"
    and "t ''oldbalanceOrg'' = Some (JFloat ob)" and "t ''newbalanceOrig'' = Some (JFloat nb)"
  shows "rule4 env t = Inr (balance_mismatch env ob nb a)"
  using assms
  by (simp add: rule4_def balance_mismatch_def bind_res_def item_def operand_def to_float_def
      split: option.splits)

lemma detect_fraud_numeric:
  assumes "t ''type'' = Some ty" and "t ''amount'' = Some (JFloat a)"
    and "t ''oldbalanceOrg'' = Some (JFloat ob)" and "t ''newbalanceOrig'' = Some (JFloat nb)"
  shows "detect_fraud env t =
     Inr ((ty = JStr ''TRANSFER'' \<and> a > 200000) \<or> (nb = 0 \<and> ob > 0)
          \<or> balance_mismatch env ob nb a)"
  using assms
  by (simp add: detect_fraud_def rule4_floats [OF assms(2-4)] rule1_def rule2_def rule3_def
      bind_res_def item_def num_def py_num_def eq_zero_def)

lemma process_transaction_ok:
  assumes ty: "t ''type'' = Some ty"
    and a: "t ''amount'' = Some va" "py_float env va = Inr a"
    and ob: "t ''oldbalanceOrg'' = Some vob" "py_float env vob = Inr ob"
    and nb: "t ''newbalanceOrig'' = Some vnb" "py_float env vnb = Inr nb"
    and od: "t ''oldbalanceDest'' = Some vod" "py_float env vod = Inr od"
    and nd: "t ''newbalanceDest'' = Some vnd" "py_float env vnd = Inr nd"
  shows "process_transaction env t =
     (t(''amount'' \<mapsto> JFloat a, ''oldbalanceOrg'' \<mapsto> JFloat ob, ''newbalanceOrig'' \<mapsto> JFloat nb,
        ''oldbalanceDest'' \<mapsto> JFloat od, ''newbalanceDest'' \<mapsto> JFloat nd,
        ''detected_fraud'' \<mapsto> JBool ((ty = JStr ''TRANSFER'' \<and> a > 200000) \<or> (nb = 0 \<and> ob > 0)
                                      \<or> balance_mismatch env ob nb a)),
      None)"
proof -
  let ?t1 = "t(''amount'' \<mapsto> JFloat a)"
  let ?t2 = "?t1(''oldbalanceOrg'' \<mapsto> JFloat ob)"
  let ?t3 = "?t2(''newbalanceOrig'' \<mapsto> JFloat nb)"
  let ?t4 = "?t3(''oldbalanceDest'' \<mapsto> JFloat od)"
  let ?t5 = "?t4(''newbalanceDest'' \<mapsto> JFloat nd)"
  have s1: "set_float env ''amount'' t = (?t1, None)" using a by (rule set_float_ok)
  have s2: "set_float env ''oldbalanceOrg'' ?t1 = (?t2, None)"
    using ob by (intro set_float_ok) simp_all
  have s3: "set_float env ''newbalanceOrig'' ?t2 = (?t3, None)"
    using nb by (intro set_float_ok) simp_all
  have s4: "set_float env ''oldbalanceDest'' ?t3 = (?t4, None)"
    using od by (intro set_float_ok) simp_all
  have s5: "set_float env ''newbalanceDest'' ?t4 = (?t5, None)"
    using nd by (intro set_float_ok) simp_all
  have df: "detect_fraud env ?t5 =
     Inr ((ty = JStr ''TRANSFER'' \<and> a > 200000) \<or> (nb = 0 \<and> ob > 0) \<or> balance_mismatch env ob nb a)"
    using ty by (intro detect_fraud_numeric) simp_all
  show ?thesis
    unfolding process_transaction_def
    by (simp add: s1 s2 s3 s4 s5 and_then_def set_detected_fraud_def df)
qed

lemma body_result_passes:
  "passes env w0 m \<Longrightarrow>
   body_result env w0 m = (if newer w0 m then Inr (Some (scored env m, step_num m)) else Inr None)"
  by (auto simp: passes_def body_result_def newer_def step_of_def step_num_def scored_def
      split: payload.splits option.splits if_splits prod.splits)

lemma included_filter:
  "\<forall>m \<in> set ms. passes env w0 m \<Longrightarrow>
   included env w0 ms = map (\<lambda>m. (scored env m, step_num m)) (filter (newer w0) ms)"
  by (induction ms) (simp_all add: body_result_passes)

lemma foldl_max_Max: "foldl max (a::real) xs = Max (insert a (set xs))"
proof (induction xs arbitrary: a)
  case Nil
  then show ?case by simp
next
  case (Cons x xs)
  have "Max (insert (max a x) (set xs)) = Max (insert a (insert x (set xs)))"
    by (cases "set xs = {}") (simp_all add: max.assoc)
  with Cons show ?case by simp
qed

lemma foldl_max_ge: "(a::real) \<le> foldl max a xs"
  by (simp add: foldl_max_Max)

lemma message_loop_acked:
  "message_loop env w0 ms pd nw s = (s', r) \<Longrightarrow>
   s' = s\<lparr>acked := acked s @ map ack_id (takeWhile (passes env w0) ms)\<rparr>"
proof (induction ms arbitrary: pd nw s)
  case Nil
  then show ?case by simp
next
  case (Cons m ms)
  show ?case
  proof (cases "passes env w0 m")
    case False
    with Cons.prems show ?thesis
      by (auto simp: message_loop_Cons passes_def simp del: message_loop.simps(2)
          split: sum.splits)
  next
    case True
    with Cons.prems obtain pd' nw' where
      "message_loop env w0 ms pd' nw' (acknowledge (ack_id m) s) = (s', r)"
      by (auto simp: message_loop_Cons passes_def simp del: message_loop.simps(2)
          split: sum.splits option.splits)
    from Cons.IH [OF this] True show ?thesis
      by (simp add: acknowledge_def)
  qed
qed

lemma pull_frame:
  assumes "pull_and_process_messages env we msgs s = (s', r)"
  shows "acked s' = acked s @ map ack_id
            (takeWhile (passes env (get_last_watermark env (watermark_table s))) msgs)"
    and "warehouse s' = warehouse s" and "xcom s' = xcom s"
proof -
  let ?w0 = "get_last_watermark env (watermark_table s)"
  obtain s1 r1 where l: "message_loop env ?w0 msgs [] ?w0 s = (s1, r1)"
    by (cases "message_loop env ?w0 msgs [] ?w0 s") auto
  from message_loop_acked [OF l]
  have s1: "s1 = s\<lparr>acked := acked s @ map ack_id (takeWhile (passes env ?w0) msgs)\<rparr>" .
  from assms l have "s' = s1 \<or> (\<exists>tbl. s' = s1\<lparr>watermark_table := tbl\<rparr>)"
    by (auto simp: pull_and_process_messages_def Let_def update_watermark_def
        split: sum.splits if_splits prod.splits)
  with s1 show "acked s' = acked s @ map ack_id (takeWhile (passes env ?w0) msgs)"
    and "warehouse s' = warehouse s" and "xcom s' = xcom s"
    by auto
qed

lemma pull_passes:
  assumes "\<forall>m \<in> set msgs. passes env (get_last_watermark env (watermark_table s)) m"
  shows "pull_and_process_messages env False msgs s =
    (let w0 = get_last_watermark env (watermark_table s);
         new = filter (newer w0) msgs;
         nw = foldl max w0 (map step_num new)
     in (s\<lparr>acked := acked s @ map ack_id msgs,
            watermark_table := (if nw > w0 then watermark_table s @ [nw] else watermark_table s)\<rparr>,
         Inr (map (scored env) new)))"
  using assms
  by (simp add: pull_and_process_messages_def Let_def message_loop_passes included_filter
      update_watermark_def comp_def)

lemma pull_fails:
  assumes "\<forall>x \<in> set pre. passes env (get_last_watermark env (watermark_table s)) x"
    and "body_result env (get_last_watermark env (watermark_table s)) m = Inl e"
  shows "pull_and_process_messages env we (pre @ m # post) s =
           (s\<lparr>acked := acked s @ map ack_id pre\<rparr>, Inl e)"
  using assms by (simp add: pull_and_process_messages_def Let_def message_loop_fails)

lemma set_float_None:
  "set_float env k t = (t', None) \<Longrightarrow> \<exists>v r. t k = Some v \<and> py_float env v = Inr r"
  by (auto simp: set_float_def item_def split: sum.splits option.splits)

lemma process_transaction_None_fields:
  assumes "process_transaction env t = (t', None)"
    and "k \<in> {''amount'', ''oldbalanceOrg'', ''newbalanceOrig'', ''oldbalanceDest'',
               ''newbalanceDest''}"
  shows "\<exists>v r. t k = Some v \<and> py_float env v = Inr r"
proof -
  from assms(1) obtain t1 t2 t3 t4 t5 where
    s1: "set_float env ''amount'' t = (t1, None)" and
    s2: "set_float env ''oldbalanceOrg'' t1 = (t2, None)" and
    s3: "set_float env ''newbalanceOrig'' t2 = (t3, None)" and
    s4: "set_float env ''oldbalanceDest'' t3 = (t4, None)" and
    s5: "set_float env ''newbalanceDest'' t4 = (t5, None)"
    unfolding process_transaction_def by (blast dest: and_then_None)
  have e1: "t1 ''oldbalanceOrg'' = t ''oldbalanceOrg''" "t1 ''newbalanceOrig'' = t ''newbalanceOrig''"
    "t1 ''oldbalanceDest'' = t ''oldbalanceDest''" "t1 ''newbalanceDest'' = t ''newbalanceDest''"
    using set_float_other [OF s1] by simp_all
  have e2: "t2 ''newbalanceOrig'' = t1 ''newbalanceOrig''"
    "t2 ''oldbalanceDest'' = t1 ''oldbalanceDest''" "t2 ''newbalanceDest'' = t1 ''newbalanceDest''"
    using set_float_other [OF s2] by simp_all
  have e3: "t3 ''oldbalanceDest'' = t2 ''oldbalanceDest''" "t3 ''newbalanceDest'' = t2 ''newbalanceDest''"
    using set_float_other [OF s3] by simp_all
  have e4: "t4 ''newbalanceDest'' = t3 ''newbalanceDest''"
    using set_float_other [OF s4] by simp_all
  from assms(2) show ?thesis
    using set_float_None [OF s1] set_float_None [OF s2] set_float_None [OF s3]
      set_float_None [OF s4] set_float_None [OF s5] e1 e2 e3 e4
    by auto
qed


lemma insert_frame:
  "acked (fst (insert_to_bigquery ok s)) = acked s"
  "watermark_table (fst (insert_to_bigquery ok s)) = watermark_table s"
  by (simp_all add: insert_to_bigquery_def split: option.splits)

lemma pull_Inr:
  assumes "pull_and_process_messages env we msgs s = (s1, Inr batch)"
  shows "\<forall>m \<in> set msgs. passes env (get_last_watermark env (watermark_table s)) m"
    and "batch = map (scored env) (filter (newer (get_last_watermark env (watermark_table s))) msgs)"
proof -
  let ?w0 = "get_last_watermark env (watermark_table s)"
  from assms obtain s' nw where l: "message_loop env ?w0 msgs [] ?w0 s = (s', Inr (batch, nw))"
    by (auto simp: pull_and_process_messages_def Let_def split: prod.splits sum.splits if_splits)
  then show p: "\<forall>m \<in> set msgs. passes env ?w0 m"
    by (blast dest: message_loop_Inr_passes)
  from l show "batch = map (scored env) (filter (newer ?w0) msgs)"
    by (simp add: message_loop_passes [OF p] included_filter [OF p] comp_def)
qed

lemma body_result_malformed:
  assumes "data m = BadJson \<or>
     (\<exists>d ts k. data m = Object d \<and> py_num (get_step d) = Some ts \<and> w0 < ts
        \<and> k \<in> {''amount'', ''oldbalanceOrg'', ''newbalanceOrig'', ''oldbalanceDest'',
                 ''newbalanceDest''}
        \<and> (d k = None \<or> (\<exists>v e. d k = Some v \<and> py_float env v = Inl e)))"
  shows "\<exists>e. body_result env w0 m = Inl e"
  using assms
proof
  assume "data m = BadJson"
  then show ?thesis by (simp add: body_result_def)
next
  assume "\<exists>d ts k. data m = Object d \<and> py_num (get_step d) = Some ts \<and> w0 < ts
        \<and> k \<in> {''amount'', ''oldbalanceOrg'', ''newbalanceOrig'', ''oldbalanceDest'',
                 ''newbalanceDest''}
        \<and> (d k = None \<or> (\<exists>v e. d k = Some v \<and> py_float env v = Inl e))"
  then obtain d ts k where d: "data m = Object d" and ts: "py_num (get_step d) = Some ts" "w0 < ts"
    and k: "k \<in> {''amount'', ''oldbalanceOrg'', ''newbalanceOrig'', ''oldbalanceDest'',
                 ''newbalanceDest''}"
    and bad: "d k = None \<or> (\<exists>v e. d k = Some v \<and> py_float env v = Inl e)"
    by (elim exE conjE) (rule that)
  obtain d' r where p: "process_transaction env d = (d', r)"
    by (cases "process_transaction env d") auto
  have "r \<noteq> None"
  proof
    assume "r = None"
    with p have "process_transaction env d = (d', None)" by simp
    from process_transaction_None_fields [OF this k] obtain v x
      where v: "d k = Some v" and f: "py_float env v = Inr x" by blast
    from bad show False
    proof
      assume "d k = None"
      with v show False by simp
    next
      assume "\<exists>v e. d k = Some v \<and> py_float env v = Inl e"
      then obtain v' e where "d k = Some v'" and "py_float env v' = Inl e" by blast
      with v f show False by simp
    qed
  qed
  then obtain e where "r = Some e" by auto
  with d ts p show ?thesis by (simp add: body_result_def)
qed

lemma passes_step_of:
  "passes env w0 m \<Longrightarrow> \<exists>ts. step_of m = Some ts \<and> (newer w0 m \<longleftrightarrow> w0 < ts)"
  by (auto simp: passes_def body_result_def step_of_def newer_def
      split: payload.splits option.splits)

lemma scored_step:
  assumes "passes env w0 m" and "newer w0 m"
  shows "\<exists>ts. py_num (get_step (scored env m)) = Some ts \<and> w0 < ts"
proof -
  from assms obtain d ts where d: "data m = Object d" and ts: "py_num (get_step d) = Some ts" "w0 < ts"
    by (auto simp: newer_def step_of_def split: payload.splits option.splits)
  obtain d' r where p: "process_transaction env d = (d', r)"
    by (cases "process_transaction env d") auto
  with assms(1) d ts have "r = None"
    by (auto simp: passes_def body_result_def split: option.splits)
  with p have p': "process_transaction env d = (d', None)" by simp
  have "d' ''step'' = d ''step''"
    by (rule process_transaction_other [OF p']) simp
  then have "get_step d' = get_step d" by (simp add: get_step_def)
  with d p' ts show ?thesis by (simp add: scored_def)
qed

text \<open>
  The insert step looks for the batch under the id \<open>pull_pubsub_messages\<close>, while the
  batch is stored under \<open>pull_and_process_messages\<close>: unless a value already sits under
  the former id, a run of the DAG leaves the target table as it was.
\<close>

lemma dag_run_warehouse:
  assumes "xcom s ''pull_pubsub_messages'' = None"
  shows "warehouse (fst (dag_run env wm_errors insert_ok msgs s)) = warehouse s"
proof -
  obtain s1 r where p: "pull_and_process_messages env wm_errors msgs s = (s1, r)"
    by (cases "pull_and_process_messages env wm_errors msgs s") auto
  from pull_frame [OF p] assms have "warehouse s1 = warehouse s" "xcom s1 ''pull_pubsub_messages'' = None"
    by simp_all
  with p show ?thesis
    by (cases r) (simp_all add: dag_run_def insert_to_bigquery_def)
qed

lemma pull_watermark_mono:
  assumes "pull_and_process_messages env we msgs s = (s1, r)"
    and "0 \<le> get_last_watermark env (watermark_table s)"
  shows "get_last_watermark env (watermark_table s)
           \<le> get_last_watermark env (watermark_table s1)"
proof -
  let ?w0 = "get_last_watermark env (watermark_table s)"
  obtain s' q where l: "message_loop env ?w0 msgs [] ?w0 s = (s', q)"
    by (cases "message_loop env ?w0 msgs [] ?w0 s") auto
  from message_loop_acked [OF l] have t: "watermark_table s' = watermark_table s" by simp
  from assms(1) l
  have "s1 = s' \<or> (\<exists>nw. ?w0 < nw \<and> s1 = s'\<lparr>watermark_table := watermark_table s' @ [nw]\<rparr>)"
    by (auto simp: pull_and_process_messages_def Let_def update_watermark_def
        split: sum.splits if_splits prod.splits)
  then show ?thesis
  proof
    assume "s1 = s'"
    with t show ?thesis by simp
  next
    assume "\<exists>nw. ?w0 < nw \<and> s1 = s'\<lparr>watermark_table := watermark_table s' @ [nw]\<rparr>"
    then obtain nw where nw: "?w0 < nw"
      and s1: "s1 = s'\<lparr>watermark_table := watermark_table s' @ [nw]\<rparr>"
      by blast
    from nw assms(2) have pos: "0 < nw" by simp
    from s1 t have "watermark_table s1 = watermark_table s @ [nw]" by simp
    with get_last_watermark_append [OF nw pos] nw show ?thesis by simp
  qed
qed

lemma detect_fraud_type:
  assumes "detect_fraud env t = Inr b"
  shows "\<exists>ty. t ''type'' = Some ty"
proof (cases "t ''type''")
  case None
  then have "detect_fraud env t = Inl KeyError"
    by (simp add: detect_fraud_def rule1_def bind_res_def item_def)
  with assms show ?thesis by simp
next
  case (Some ty)
  then show ?thesis by simp
qed

lemma process_transaction_type:
  assumes "process_transaction env t = (t', None)"
  shows "\<exists>ty. t ''type'' = Some ty"
proof -
  from assms obtain t1 t2 t3 t4 t5 where
    s1: "set_float env ''amount'' t = (t1, None)" and
    s2: "set_float env ''oldbalanceOrg'' t1 = (t2, None)" and
    s3: "set_float env ''newbalanceOrig'' t2 = (t3, None)" and
    s4: "set_float env ''oldbalanceDest'' t3 = (t4, None)" and
    s5: "set_float env ''newbalanceDest'' t4 = (t5, None)" and
    s6: "set_detected_fraud env t5 = (t', None)"
    unfolding process_transaction_def by (blast dest: and_then_None)
  from s6 obtain b where "detect_fraud env t5 = Inr b"
    by (auto simp: set_detected_fraud_def split: sum.splits)
  from detect_fraud_type [OF this] obtain ty where "t5 ''type'' = Some ty" by blast
  moreover have "t5 ''type'' = t ''type''"
    using set_float_other [OF s1, of "''type''"] set_float_other [OF s2, of "''type''"]
      set_float_other [OF s3, of "''type''"] set_float_other [OF s4, of "''type''"]
      set_float_other [OF s5, of "''type''"]
    by simp
  ultimately show ?thesis by simp
qed

lemma process_transaction_None_form:
  assumes "process_transaction env t = (t', None)"
  shows "\<exists>ty va a vob ob vnb nb vod od vnd nd.
     t ''type'' = Some ty
     \<and> t ''amount'' = Some va \<and> py_float env va = Inr a
     \<and> t ''oldbalanceOrg'' = Some vob \<and> py_float env vob = Inr ob
     \<and> t ''newbalanceOrig'' = Some vnb \<and> py_float env vnb = Inr nb
     \<and> t ''oldbalanceDest'' = Some vod \<and> py_float env vod = Inr od
     \<and> t ''newbalanceDest'' = Some vnd \<and> py_float env vnd = Inr nd
     \<and> t' = t(''amount'' \<mapsto> JFloat a, ''oldbalanceOrg'' \<mapsto> JFloat ob,
              ''newbalanceOrig'' \<mapsto> JFloat nb, ''oldbalanceDest'' \<mapsto> JFloat od,
              ''newbalanceDest'' \<mapsto> JFloat nd,
              ''detected_fraud'' \<mapsto> JBool ((ty = JStr ''TRANSFER'' \<and> a > 200000)
                \<or> (nb = 0 \<and> ob > 0) \<or> balance_mismatch env ob nb a))"
proof -
  from process_transaction_type [OF assms] obtain ty where ty: "t ''type'' = Some ty" by blast
  from process_transaction_None_fields [OF assms, of "''amount''"]
  obtain va a where a: "t ''amount'' = Some va" "py_float env va = Inr a" by auto
  from process_transaction_None_fields [OF assms, of "''oldbalanceOrg''"]
  obtain vob ob where ob: "t ''oldbalanceOrg'' = Some vob" "py_float env vob = Inr ob" by auto
  from process_transaction_None_fields [OF assms, of "''newbalanceOrig''"]
  obtain vnb nb where nb: "t ''newbalanceOrig'' = Some vnb" "py_float env vnb = Inr nb" by auto
  from process_transaction_None_fields [OF assms, of "''oldbalanceDest''"]
  obtain vod od where od: "t ''oldbalanceDest'' = Some vod" "py_float env vod = Inr od" by auto
  from process_transaction_None_fields [OF assms, of "''newbalanceDest''"]
  obtain vnd nd where nd: "t ''newbalanceDest'' = Some vnd" "py_float env vnd = Inr nd" by auto
  from process_transaction_ok [OF ty a ob nb od nd] assms
  have "t' = t(''amount'' \<mapsto> JFloat a, ''oldbalanceOrg'' \<mapsto> JFloat ob,
              ''newbalanceOrig'' \<mapsto> JFloat nb, ''oldbalanceDest'' \<mapsto> JFloat od,
              ''newbalanceDest'' \<mapsto> JFloat nd,
              ''detected_fraud'' \<mapsto> JBool ((ty = JStr ''TRANSFER'' \<and> a > 200000)
                \<or> (nb = 0 \<and> ob > 0) \<or> balance_mismatch env ob nb a))"
    by simp
  with ty a ob nb od nd show ?thesis by blast
qed

lemma scored_form:
  assumes "passes env w0 m" and "newer w0 m"
  shows "\<exists>d ty va a vob ob vnb nb vod od vnd nd.
     data m = Object d \<and> d ''type'' = Some ty
     \<and> d ''amount'' = Some va \<and> py_float env va = Inr a
     \<and> d ''oldbalanceOrg'' = Some vob \<and> py_float env vob = Inr ob
     \<and> d ''newbalanceOrig'' = Some vnb \<and> py_float env vnb = Inr nb
     \<and> d ''oldbalanceDest'' = Some vod \<and> py_float env vod = Inr od
     \<and> d ''newbalanceDest'' = Some vnd \<and> py_float env vnd = Inr nd
     \<and> scored env m = d(''amount'' \<mapsto> JFloat a, ''oldbalanceOrg'' \<mapsto> JFloat ob,
              ''newbalanceOrig'' \<mapsto> JFloat nb, ''oldbalanceDest'' \<mapsto> JFloat od,
              ''newbalanceDest'' \<mapsto> JFloat nd,
              ''detected_fraud'' \<mapsto> JBool ((ty = JStr ''TRANSFER'' \<and> a > 200000)
                \<or> (nb = 0 \<and> ob > 0) \<or> balance_mismatch env ob nb a))"
proof -
  from assms obtain d ts where d: "data m = Object d"
    and ts: "py_num (get_step d) = Some ts" "w0 < ts"
    by (auto simp: newer_def step_of_def split: payload.splits option.splits)
  obtain d' r where p: "process_transaction env d = (d', r)"
    by (cases "process_transaction env d") auto
  with assms(1) d ts have "r = None"
    by (auto simp: passes_def body_result_def split: option.splits)
  with p have p': "process_transaction env d = (d', None)" by simp
  from d p' have s: "scored env m = d'" by (simp add: scored_def)
  from process_transaction_None_form [OF p'] d s show ?thesis by simp
qed

section \<open>Rule engine properties\<close>

text \<open>
  Claim C3, as stated: the verdict is the disjunction of the three rules with the
  mismatch taken as \<open>\<bar>oldbalanceOrg - newbalanceOrig - amount\<bar> > 0.01\<close>. It fails at
  one-cent mismatches. For zero balances and an amount equal to the double nearest 0.01
  the disjunction holds (that double exceeds 1/100), yet the verdict is not fraud. For
  balances 1000 and 900 and an amount sent as \<open>'99.99'\<close> the disjunction does not hold
  (the mismatch is 0.01), yet scoring sets \<open>detected_fraud\<close>.
\<close>

theorem C3_exact_threshold_counterexample:
  "detect_fraud example_env (example_boundary double_001) = Inr False
   \<and> ((JStr ''PAYMENT'' = JStr ''TRANSFER'' \<and> double_001 > 200000)
        \<or> ((0::real) = 0 \<and> (0::real) > 0)
        \<or> \<bar>0 - 0 - double_001\<bar> > 0.01)
   \<and> fst (process_transaction example_env (example_txn 105 ''PAYMENT'' (JStr ''99.99'')))
         ''detected_fraud'' = Some (JBool True)
   \<and> \<not> ((JStr ''PAYMENT'' = JStr ''TRANSFER'' \<and> (99.99::real) > 200000)
          \<or> ((900::real) = 0 \<and> (1000::real) > 0)
          \<or> \<bar>1000 - 900 - 99.99\<bar> > (0.01::real))"
  by (simp add: example_boundary_def example_txn_def example_env_def double_001_def
      double_9999_def engine_defs)

text \<open>
  Claim C3, amended. For a transaction whose \<open>type\<close> is present and whose \<open>amount\<close>,
  \<open>oldbalanceOrg\<close> and \<open>newbalanceOrig\<close> are floats, \<open>detect_fraud\<close> returns the
  disjunction of rule 1 (a TRANSFER above 200000), rule 2 (an account emptied) and rule 4,
  the mismatch \<open>abs(old - new - amount) > 0.01\<close> as the runtime evaluates it in doubles;
  rule 3 adds nothing. In particular every TRANSFER with an amount above 200000 is
  flagged.
\<close>

theorem C3_verdict_is_or_of_rules:
  assumes "t ''type'' = Some ty" and "t ''amount'' = Some (JFloat a)"
    and "t ''oldbalanceOrg'' = Some (JFloat ob)" and "t ''newbalanceOrig'' = Some (JFloat nb)"
  shows "detect_fraud env t =
           Inr ((ty = JStr ''TRANSFER'' \<and> a > 200000) \<or> (nb = 0 \<and> ob > 0)
                \<or> balance_mismatch env ob nb a)
         \<and> (ty = JStr ''TRANSFER'' \<and> a > 200000 \<longrightarrow> detect_fraud env t = Inr True)"
proof -
  have v: "detect_fraud env t =
      Inr ((ty = JStr ''TRANSFER'' \<and> a > 200000) \<or> (nb = 0 \<and> ob > 0)
           \<or> balance_mismatch env ob nb a)"
    using assms by (rule detect_fraud_numeric)
  then show ?thesis by simp
qed

theorem C3_verdict_is_or_of_rules_witness:
  "detect_fraud example_env (example_txn 105 ''TRANSFER'' (JFloat 250000)) = Inr True
   \<and> detect_fraud example_env (example_txn 105 ''PAYMENT'' (JFloat 100)) = Inr False"
  using C3_verdict_is_or_of_rules
      [of "example_txn 105 ''TRANSFER'' (JFloat 250000)" "JStr ''TRANSFER''" 250000 1000 900
          example_env]
    C3_verdict_is_or_of_rules
      [of "example_txn 105 ''PAYMENT'' (JFloat 100)" "JStr ''PAYMENT''" 100 1000 900 example_env]
  by (simp add: example_txn_def balance_mismatch_def example_env_def double_001_def)

text \<open>
  Claim C7, as stated: the balance-mismatch rule flags exactly when
  \<open>\<bar>oldbalanceOrg - newbalanceOrig - amount\<bar>\<close> exceeds 0.01. It fails both ways: with
  zero balances and an amount equal to the double nearest 0.01 the mismatch exceeds 1/100
  and the rule does not flag; with balances 1000 and 900 and the double that \<open>'99.99'\<close>
  denotes the rule flags, although 1000 - 900 - 99.99 is 0.01.
\<close>

theorem C7_exact_threshold_counterexample:
  "\<bar>0 - 0 - double_001\<bar> > (0.01::real)
   \<and> rule4 example_env (example_boundary double_001) = Inr False
   \<and> str_float example_env ''99.99'' = Some double_9999
   \<and> rule4 example_env (example_txn 105 ''PAYMENT'' (JFloat double_9999)) = Inr True
   \<and> \<not> \<bar>1000 - 900 - 99.99\<bar> > (0.01::real)"
  by (simp add: example_boundary_def example_txn_def example_env_def double_001_def
      double_9999_def engine_defs)

text \<open>
  Claim C7, amended. On a transaction with float fields, with \<open>d\<close> the double
  \<open>oldbalanceOrg - newbalanceOrig\<close> and \<open>m\<close> the double \<open>d - amount\<close>, the
  balance-mismatch rule yields true exactly when \<open>\<bar>m\<bar>\<close> is strictly above the double the
  literal \<open>0.01\<close> denotes: above it the verdict is fraud, at or below it the verdict is
  left to rules 1 and 2.
\<close>

theorem C7_balance_mismatch_threshold:
  assumes "t ''type'' = Some ty" and "t ''amount'' = Some (JFloat a)"
    and "t ''oldbalanceOrg'' = Some (JFloat ob)" and "t ''newbalanceOrig'' = Some (JFloat nb)"
    and "fsub env ob nb = Some d" and "fsub env d a = Some m"
  shows "rule4 env t = Inr (\<bar>m\<bar> > lit_001 env)
         \<and> (\<bar>m\<bar> > lit_001 env \<longrightarrow> detect_fraud env t = Inr True)
         \<and> (\<bar>m\<bar> \<le> lit_001 env \<longrightarrow>
              detect_fraud env t = Inr ((ty = JStr ''TRANSFER'' \<and> a > 200000) \<or> (nb = 0 \<and> ob > 0)))"
proof -
  have b: "balance_mismatch env ob nb a = (\<bar>m\<bar> > lit_001 env)"
    using assms(5,6) by (simp add: balance_mismatch_def)
  have r4: "rule4 env t = Inr (\<bar>m\<bar> > lit_001 env)"
    using rule4_floats [OF assms(2-4), of env] b by simp
  have v: "detect_fraud env t =
      Inr ((ty = JStr ''TRANSFER'' \<and> a > 200000) \<or> (nb = 0 \<and> ob > 0) \<or> \<bar>m\<bar> > lit_001 env)"
    using detect_fraud_numeric [OF assms(1-4), of env] b by simp
  from r4 v show ?thesis by auto
qed

theorem C7_balance_mismatch_threshold_witness:
  "rule4 example_env (example_boundary double_001) = Inr False
   \<and> detect_fraud example_env (example_boundary double_001) = Inr False
   \<and> detect_fraud example_env (example_boundary (2882591991893269 / 2 ^ 58)) = Inr True"
  using C7_balance_mismatch_threshold
      [of "example_boundary double_001" "JStr ''PAYMENT''" double_001 0 0 example_env 0
          "- double_001"]
    C7_balance_mismatch_threshold
      [of "example_boundary (2882591991893269 / 2 ^ 58)" "JStr ''PAYMENT''"
          "2882591991893269 / 2 ^ 58" 0 0 example_env 0 "- (2882591991893269 / 2 ^ 58)"]
  by (simp add: example_boundary_def example_env_def double_001_def)

text \<open>
  Claim C8, as stated: scoring leaves the record it was given unchanged. It does not: the
  record passed in is the one that receives the coerced fields and \<open>detected_fraud\<close>.
\<close>

theorem C8_input_unchanged_counterexample:
  "fst (process_transaction example_env (example_txn 101 ''PAYMENT'' (JStr ''100.0'')))
     \<noteq> example_txn 101 ''PAYMENT'' (JStr ''100.0'')"
proof
  assume "fst (process_transaction example_env (example_txn 101 ''PAYMENT'' (JStr ''100.0'')))
     = example_txn 101 ''PAYMENT'' (JStr ''100.0'')"
  then have "fst (process_transaction example_env
                 (example_txn 101 ''PAYMENT'' (JStr ''100.0''))) ''detected_fraud''
     = example_txn 101 ''PAYMENT'' (JStr ''100.0'') ''detected_fraud''"
    by simp
  then show False
    by (simp add: example_defs engine_defs)
qed

text \<open>
  Claim C8, amended. Scoring updates the record it is given in place and returns that same
  record: when \<open>type\<close> is present and the five numeric fields are present and accepted
  by \<open>float\<close>, the call raises nothing and the record holds afterwards the five fields as
  floats and \<open>detected_fraud\<close> set to what \<open>detect_fraud\<close> returns on the coerced
  record, every other field as before.
\<close>

theorem C8_scoring_updates_input_in_place:
  assumes "t ''type'' = Some ty"
    and "t ''amount'' = Some va" and "py_float env va = Inr a"
    and "t ''oldbalanceOrg'' = Some vob" and "py_float env vob = Inr ob"
    and "t ''newbalanceOrig'' = Some vnb" and "py_float env vnb = Inr nb"
    and "t ''oldbalanceDest'' = Some vod" and "py_float env vod = Inr od"
    and "t ''newbalanceDest'' = Some vnd" and "py_float env vnd = Inr nd"
  shows "process_transaction env t =
     (t(''amount'' \<mapsto> JFloat a, ''oldbalanceOrg'' \<mapsto> JFloat ob, ''newbalanceOrig'' \<mapsto> JFloat nb,
        ''oldbalanceDest'' \<mapsto> JFloat od, ''newbalanceDest'' \<mapsto> JFloat nd,
        ''detected_fraud'' \<mapsto> JBool ((ty = JStr ''TRANSFER'' \<and> a > 200000) \<or> (nb = 0 \<and> ob > 0)
                                      \<or> balance_mismatch env ob nb a)),
      None)
     \<and> detect_fraud env
          (t(''amount'' \<mapsto> JFloat a, ''oldbalanceOrg'' \<mapsto> JFloat ob, ''newbalanceOrig'' \<mapsto> JFloat nb,
             ''oldbalanceDest'' \<mapsto> JFloat od, ''newbalanceDest'' \<mapsto> JFloat nd))
         = Inr ((ty = JStr ''TRANSFER'' \<and> a > 200000) \<or> (nb = 0 \<and> ob > 0)
                \<or> balance_mismatch env ob nb a)"
proof -
  have "detect_fraud env
          (t(''amount'' \<mapsto> JFloat a, ''oldbalanceOrg'' \<mapsto> JFloat ob, ''newbalanceOrig'' \<mapsto> JFloat nb,
             ''oldbalanceDest'' \<mapsto> JFloat od, ''newbalanceDest'' \<mapsto> JFloat nd))
         = Inr ((ty = JStr ''TRANSFER'' \<and> a > 200000) \<or> (nb = 0 \<and> ob > 0)
                \<or> balance_mismatch env ob nb a)"
    using assms(1) by (intro detect_fraud_numeric) simp_all
  with process_transaction_ok [OF assms] show ?thesis by simp
qed

theorem C8_scoring_updates_input_in_place_witness:
  "process_transaction example_env (example_txn 101 ''PAYMENT'' (JStr ''100.0'')) =
     ((example_txn 101 ''PAYMENT'' (JStr ''100.0''))
        (''amount'' \<mapsto> JFloat 100, ''oldbalanceOrg'' \<mapsto> JFloat 1000,
         ''newbalanceOrig'' \<mapsto> JFloat 900, ''oldbalanceDest'' \<mapsto> JFloat 0,
         ''newbalanceDest'' \<mapsto> JFloat 100, ''detected_fraud'' \<mapsto> JBool False),
      None)"
  using C8_scoring_updates_input_in_place
    [of "example_txn 101 ''PAYMENT'' (JStr ''100.0'')" "JStr ''PAYMENT''"
        "JStr ''100.0''" example_env 100 "JFloat 1000" 1000 "JFloat 900" 900 "JFloat 0" 0
        "JFloat 100" 100]
  by (simp add: example_txn_def example_env_def double_001_def balance_mismatch_def)

section \<open>Watermark store properties\<close>







section \<open>Pipeline properties\<close>

text \<open>
  Claim C1, as stated: no pulled message is acknowledged before the warehouse commit of
  the cycle's batch has succeeded. It fails: with watermark 100 and steps 90, 101 and 105
  all three messages are acknowledged when the pull task ends, while the target table is
  still empty, and it is still empty at the end of the DAG run.
\<close>

theorem C1_ack_before_commit_counterexample:
  "acked (fst (pull_and_process_messages example_env False example_batch (example_world [100])))
     = [''a90'', ''a101'', ''a105'']
   \<and> warehouse (fst (pull_and_process_messages example_env False example_batch
                       (example_world [100]))) = []
   \<and> acked (fst (dag_run example_env False (\<lambda>rows. False) example_batch (example_world [100])))
     = [''a90'', ''a101'', ''a105'']
   \<and> warehouse (fst (dag_run example_env False (\<lambda>rows. False) example_batch
                       (example_world [100]))) = []"
  by (simp add: dag_run_def insert_to_bigquery_def pull_and_process_messages_def
      get_last_watermark_def  update_watermark_def
      get_step_def acknowledge_def example_defs engine_defs)

text \<open>
  Claim C1, amended. Acknowledgement belongs to the pull task: each message handled without
  an exception is acknowledged right after it has been filtered (and scored, when newer
  than the watermark), so the pull task leaves acknowledged exactly the messages up to the
  first one that raises, all of them when it returns normally, and it does not touch the
  target table. The insert task sends no acknowledgement.
\<close>

theorem C1_ack_inside_pull_task:
  assumes "pull_and_process_messages env wm_errors msgs s = (s1, r)"
  shows "acked s1 = acked s @ map ack_id
           (takeWhile (passes env (get_last_watermark env (watermark_table s))) msgs)
         \<and> ((\<exists>batch. r = Inr batch) \<longrightarrow> acked s1 = acked s @ map ack_id msgs)
         \<and> warehouse s1 = warehouse s
         \<and> acked (fst (insert_to_bigquery insert_ok s2)) = acked s2"
proof -
  let ?w0 = "get_last_watermark env (watermark_table s)"
  have a: "acked s1 = acked s @ map ack_id (takeWhile (passes env ?w0) msgs)"
    and w: "warehouse s1 = warehouse s"
    using pull_frame [OF assms] by simp_all
  have full: "takeWhile (passes env ?w0) msgs = msgs" if "r = Inr batch" for batch
  proof -
    from assms that obtain s' q where "message_loop env ?w0 msgs [] ?w0 s = (s', Inr q)"
      by (auto simp: pull_and_process_messages_def Let_def split: prod.splits sum.splits if_splits)
    then have "\<forall>m \<in> set msgs. passes env ?w0 m"
      by (blast dest: message_loop_Inr_passes)
    then show ?thesis by (simp add: takeWhile_eq_all_conv)
  qed
  have "acked s1 = acked s @ map ack_id msgs" if "r = Inr batch" for batch
    using a full [OF that] by (simp only:)
  with a w show ?thesis by (auto simp only: insert_frame)
qed

theorem C1_ack_inside_pull_task_witness:
  "acked (fst (pull_and_process_messages example_env False example_batch (example_world [100])))
     = [''a90'', ''a101'', ''a105'']"
proof -
  obtain s1 r where p:
    "pull_and_process_messages example_env False example_batch (example_world [100]) = (s1, r)"
    by (cases "pull_and_process_messages example_env False example_batch (example_world [100])")
  have t: "takeWhile (passes example_env (get_last_watermark example_env (watermark_table (example_world [100]))))
             example_batch = example_batch"
    by (simp add: passes_def body_result_def get_last_watermark_def 
        get_step_def example_defs engine_defs)
  from C1_ack_inside_pull_task [OF p] t p show ?thesis
    by (simp add: example_defs)
qed

text \<open>
  Claim C2, as stated: the watermark advance becomes visible only after the batch's rows
  are committed, and without a successful insert the stored watermark is what it was when
  the cycle began. It fails: the pull task moves the watermark from 100 to 105 while the
  target table is empty, and the DAG run ends in that state.
\<close>

theorem C2_watermark_before_commit_counterexample:
  "get_last_watermark example_env (watermark_table (example_world [100])) = 100
   \<and> get_last_watermark example_env (watermark_table (fst (pull_and_process_messages example_env False
         example_batch (example_world [100])))) = 105
   \<and> warehouse (fst (pull_and_process_messages example_env False example_batch
         (example_world [100]))) = []
   \<and> get_last_watermark example_env (watermark_table (fst (dag_run example_env False (\<lambda>rows. False)
         example_batch (example_world [100])))) = 105
   \<and> warehouse (fst (dag_run example_env False (\<lambda>rows. False) example_batch
         (example_world [100]))) = []"
  by (simp add: run_defs example_defs engine_defs)

text \<open>
  Claim C2, amended. The watermark row is written at the end of the pull task, whenever
  some included message has a step above the starting watermark, before the insert task
  runs and without regard to its outcome; the pull task does not touch the target table
  and the insert task never changes the watermark table.
\<close>

theorem C2_watermark_written_by_pull_task:
  assumes "\<forall>m \<in> set msgs. passes env (get_last_watermark env (watermark_table s)) m"
  shows "(let w0 = get_last_watermark env (watermark_table s);
              nw = foldl max w0 (map step_num (filter (newer w0) msgs));
              tbl = (if nw > w0 then watermark_table s @ [nw] else watermark_table s)
          in watermark_table (fst (pull_and_process_messages env False msgs s)) = tbl
             \<and> warehouse (fst (pull_and_process_messages env False msgs s)) = warehouse s
             \<and> watermark_table (fst (dag_run env False insert_ok msgs s)) = tbl)
         \<and> watermark_table (fst (insert_to_bigquery insert_ok s2)) = watermark_table s2"
  using assms
  by (simp add: pull_passes Let_def dag_run_def insert_frame)

theorem C2_watermark_written_by_pull_task_witness:
  "watermark_table (fst (pull_and_process_messages example_env False example_batch
      (example_world [100]))) = [100, 105]
   \<and> watermark_table (fst (dag_run example_env False (\<lambda>rows. False) example_batch
      (example_world [100]))) = [100, 105]"
proof -
  have p: "\<forall>m \<in> set example_batch.
      passes example_env (get_last_watermark example_env (watermark_table (example_world [100]))) m"
    by (simp add: run_defs example_defs engine_defs)
  have n: "filter (newer (get_last_watermark example_env (watermark_table (example_world [100])))) example_batch
      = tl example_batch"
    by (simp add: newer_def step_of_def run_defs example_defs)
  show ?thesis
    using C2_watermark_written_by_pull_task [OF p, of "\<lambda>rows. False"] n
    by (simp add: Let_def step_num_def step_of_def run_defs example_defs engine_defs)
qed

text \<open>
  Claim C4, as stated: a message that cannot be scored is acknowledged and left out, and
  the cycle goes on with the other messages. It fails: with a non-numeric \<open>amount\<close> in
  the second of three messages the pull task raises \<open>ValueError\<close>; only the first
  message is acknowledged, no batch is returned and no watermark row is written.
\<close>

theorem C4_malformed_message_counterexample:
  "pull_and_process_messages example_env False example_bad_batch (example_world []) =
     ((example_world [])\<lparr>acked := [''a1'']\<rparr>, Inl ValueError)"
  by (simp add: pull_and_process_messages_def get_last_watermark_def 
      get_step_def acknowledge_def example_defs engine_defs)

text \<open>
  Claim C4, amended. A message whose payload cannot be decoded, or whose step is above the
  watermark and one of whose five numeric fields is missing or holds a value \<open>float\<close>
  rejects, makes the pull task raise when the loop reaches it: the messages before it stay
  acknowledged, it and the messages after it are not acknowledged, no batch is returned and
  the watermark table is left as it was.
\<close>

theorem C4_malformed_message_aborts_cycle:
  assumes "\<forall>x \<in> set pre. passes env (get_last_watermark env (watermark_table s)) x"
    and "data m = BadJson \<or>
     (\<exists>d ts k. data m = Object d \<and> py_num (get_step d) = Some ts
        \<and> get_last_watermark env (watermark_table s) < ts
        \<and> k \<in> {''amount'', ''oldbalanceOrg'', ''newbalanceOrig'', ''oldbalanceDest'',
                 ''newbalanceDest''}
        \<and> (d k = None \<or> (\<exists>v e. d k = Some v \<and> py_float env v = Inl e)))"
  shows "\<exists>e. pull_and_process_messages env wm_errors (pre @ m # post) s =
           (s\<lparr>acked := acked s @ map ack_id pre\<rparr>, Inl e)"
proof -
  from body_result_malformed [OF assms(2)] obtain e
    where "body_result env (get_last_watermark env (watermark_table s)) m = Inl e" by blast
  from pull_fails [OF assms(1) this] show ?thesis by blast
qed

theorem C4_malformed_message_aborts_cycle_witness:
  "\<exists>e. pull_and_process_messages example_env False example_bad_batch (example_world []) =
     ((example_world [])\<lparr>acked := [''a1'']\<rparr>, Inl e)"
proof -
  let ?m1 = "example_msg ''a1'' (example_txn 1 ''PAYMENT'' (JFloat 100))"
  let ?m2 = "example_msg ''a2'' (example_txn 2 ''PAYMENT'' (JStr ''not_a_number''))"
  let ?m3 = "example_msg ''a3'' (example_txn 3 ''PAYMENT'' (JFloat 100))"
  have p: "\<forall>x \<in> set [?m1].
      passes example_env (get_last_watermark example_env (watermark_table (example_world []))) x"
    by (simp add: run_defs example_defs engine_defs)
  have b: "data ?m2 = BadJson \<or>
     (\<exists>d ts k. data ?m2 = Object d \<and> py_num (get_step d) = Some ts
        \<and> get_last_watermark example_env (watermark_table (example_world [])) < ts
        \<and> k \<in> {''amount'', ''oldbalanceOrg'', ''newbalanceOrig'', ''oldbalanceDest'',
                 ''newbalanceDest''}
        \<and> (d k = None \<or> (\<exists>v e. d k = Some v \<and> py_float example_env v = Inl e)))"
    by (rule disjI2, rule exI [of _ "example_txn 2 ''PAYMENT'' (JStr ''not_a_number'')"],
        rule exI [of _ 2], rule exI [of _ "''amount''"])
      (simp add: run_defs example_defs)
  from C4_malformed_message_aborts_cycle [OF p b, of False "[?m3]"] show ?thesis
    by (simp add: example_bad_batch_def example_world_def example_msg_def)
qed

text \<open>
  Claim C5, as stated: in every cycle exactly the messages with a step above the starting
  watermark are scored and included (committed, in the example), and the others
  acknowledged. It fails: behind a message that raises, a message with step 3 above
  watermark 0 is neither scored nor acknowledged and no batch is returned; and with
  watermark 100 and steps 90, 101 and 105 a run of the DAG whose insert would succeed
  still leaves the target table empty.
\<close>

theorem C5_every_cycle_counterexample:
  "get_last_watermark example_env (watermark_table (example_world [])) = 0
   \<and> step_of (example_msg ''a3'' (example_txn 3 ''PAYMENT'' (JFloat 100))) = Some 3
   \<and> snd (pull_and_process_messages example_env False example_bad_batch (example_world []))
       = Inl ValueError
   \<and> acked (fst (pull_and_process_messages example_env False example_bad_batch
       (example_world []))) = [''a1'']
   \<and> warehouse (fst (dag_run example_env False (\<lambda>rows. True) example_batch
       (example_world [100]))) = []"
  by (simp add: step_of_def run_defs example_defs engine_defs)

text \<open>
  Claim C5, amended. In a cycle where every pulled message can be handled and the
  watermark insert reports no error, the pull task returns, in order, the transactions of
  exactly the messages whose step is above the starting watermark, each with its five
  numeric fields coerced to floats and \<open>detected_fraud\<close> set to the verdict; it
  acknowledges every pulled message; the candidate watermark is the greatest of the
  starting watermark and the steps of the included messages, and its row is written when
  it exceeds the starting watermark; a candidate above 0 is the watermark read back
  afterwards. With watermark 100 and steps 90, 101 and 105 the batch holds steps 101 and
  105 and the watermark becomes 105.
\<close>

theorem C5_filter_and_candidate_watermark:
  assumes "\<forall>m \<in> set msgs. passes env (get_last_watermark env (watermark_table s)) m"
  shows "(let w0 = get_last_watermark env (watermark_table s);
              new = filter (newer w0) msgs;
              nw = Max (insert w0 (step_num ` set new));
              s1 = fst (pull_and_process_messages env False msgs s)
          in snd (pull_and_process_messages env False msgs s) = Inr (map (scored env) new)
             \<and> (\<forall>m \<in> set msgs. \<exists>ts. step_of m = Some ts \<and> (m \<in> set new \<longleftrightarrow> w0 < ts))
             \<and> (\<forall>m \<in> set new. \<exists>d ty va a vob ob vnb nb vod od vnd nd.
                   data m = Object d \<and> d ''type'' = Some ty
                   \<and> d ''amount'' = Some va \<and> py_float env va = Inr a
                   \<and> d ''oldbalanceOrg'' = Some vob \<and> py_float env vob = Inr ob
                   \<and> d ''newbalanceOrig'' = Some vnb \<and> py_float env vnb = Inr nb
                   \<and> d ''oldbalanceDest'' = Some vod \<and> py_float env vod = Inr od
                   \<and> d ''newbalanceDest'' = Some vnd \<and> py_float env vnd = Inr nd
                   \<and> scored env m =
                       d(''amount'' \<mapsto> JFloat a, ''oldbalanceOrg'' \<mapsto> JFloat ob,
                         ''newbalanceOrig'' \<mapsto> JFloat nb, ''oldbalanceDest'' \<mapsto> JFloat od,
                         ''newbalanceDest'' \<mapsto> JFloat nd,
                         ''detected_fraud'' \<mapsto> JBool ((ty = JStr ''TRANSFER'' \<and> a > 200000)
                            \<or> (nb = 0 \<and> ob > 0) \<or> balance_mismatch env ob nb a)))
             \<and> acked s1 = acked s @ map ack_id msgs
             \<and> watermark_table s1
                 = (if w0 < nw then watermark_table s @ [nw] else watermark_table s)
             \<and> (0 < nw \<longrightarrow> get_last_watermark env (watermark_table s1) = nw))"
proof -
  let ?w0 = "get_last_watermark env (watermark_table s)"
  let ?new = "filter (newer ?w0) msgs"
  let ?nw = "Max (insert ?w0 (step_num ` set ?new))"
  let ?run = "pull_and_process_messages env False msgs s"
  have fm: "foldl max ?w0 (map step_num ?new) = ?nw"
    by (simp add: foldl_max_Max)
  have r: "snd ?run = Inr (map (scored env) ?new)"
    and a: "acked (fst ?run) = acked s @ map ack_id msgs"
    by (simp_all add: pull_passes [OF assms] Let_def)
  have "watermark_table (fst ?run)
      = (if ?w0 < foldl max ?w0 (map step_num ?new)
         then watermark_table s @ [foldl max ?w0 (map step_num ?new)] else watermark_table s)"
    by (simp add: pull_passes [OF assms] Let_def)
  then have t: "watermark_table (fst ?run)
      = (if ?w0 < ?nw then watermark_table s @ [?nw] else watermark_table s)"
    by (simp only: fm)
  have ge: "?w0 \<le> ?nw" using foldl_max_ge [of ?w0 "map step_num ?new"] by (simp only: fm)
  have w': "get_last_watermark env (watermark_table (fst ?run)) = ?nw" if pos: "0 < ?nw"
  proof (cases "?w0 < ?nw")
    case True
    from get_last_watermark_append [OF True pos] t True show ?thesis by simp
  next
    case False
    with ge have e: "?nw = ?w0" by linarith
    from t False have "watermark_table (fst ?run) = watermark_table s" by (simp only: if_False)
    with e show ?thesis by (simp only:)
  qed
  have f: "\<forall>m \<in> set msgs. \<exists>ts. step_of m = Some ts \<and> (m \<in> set ?new \<longleftrightarrow> ?w0 < ts)"
    using assms passes_step_of by fastforce
  have g: "\<forall>m \<in> set ?new. \<exists>d ty va a vob ob vnb nb vod od vnd nd.
                   data m = Object d \<and> d ''type'' = Some ty
                   \<and> d ''amount'' = Some va \<and> py_float env va = Inr a
                   \<and> d ''oldbalanceOrg'' = Some vob \<and> py_float env vob = Inr ob
                   \<and> d ''newbalanceOrig'' = Some vnb \<and> py_float env vnb = Inr nb
                   \<and> d ''oldbalanceDest'' = Some vod \<and> py_float env vod = Inr od
                   \<and> d ''newbalanceDest'' = Some vnd \<and> py_float env vnd = Inr nd
                   \<and> scored env m =
                       d(''amount'' \<mapsto> JFloat a, ''oldbalanceOrg'' \<mapsto> JFloat ob,
                         ''newbalanceOrig'' \<mapsto> JFloat nb, ''oldbalanceDest'' \<mapsto> JFloat od,
                         ''newbalanceDest'' \<mapsto> JFloat nd,
                         ''detected_fraud'' \<mapsto> JBool ((ty = JStr ''TRANSFER'' \<and> a > 200000)
                            \<or> (nb = 0 \<and> ob > 0) \<or> balance_mismatch env ob nb a))"
  proof
    fix m assume "m \<in> set ?new"
    then have "m \<in> set msgs" and n: "newer ?w0 m" by simp_all
    with assms have "passes env ?w0 m" by blast
    from scored_form [OF this n]
    show "\<exists>d ty va a vob ob vnb nb vod od vnd nd.
                   data m = Object d \<and> d ''type'' = Some ty
                   \<and> d ''amount'' = Some va \<and> py_float env va = Inr a
                   \<and> d ''oldbalanceOrg'' = Some vob \<and> py_float env vob = Inr ob
                   \<and> d ''newbalanceOrig'' = Some vnb \<and> py_float env vnb = Inr nb
                   \<and> d ''oldbalanceDest'' = Some vod \<and> py_float env vod = Inr od
                   \<and> d ''newbalanceDest'' = Some vnd \<and> py_float env vnd = Inr nd
                   \<and> scored env m =
                       d(''amount'' \<mapsto> JFloat a, ''oldbalanceOrg'' \<mapsto> JFloat ob,
                         ''newbalanceOrig'' \<mapsto> JFloat nb, ''oldbalanceDest'' \<mapsto> JFloat od,
                         ''newbalanceDest'' \<mapsto> JFloat nd,
                         ''detected_fraud'' \<mapsto> JBool ((ty = JStr ''TRANSFER'' \<and> a > 200000)
                            \<or> (nb = 0 \<and> ob > 0) \<or> balance_mismatch env ob nb a))" .
  qed
  from w' have w: "0 < ?nw \<longrightarrow> get_last_watermark env (watermark_table (fst ?run)) = ?nw"
    by (rule impI)
  show ?thesis unfolding Let_def
    by (insert r f g a t w, intro conjI) assumption+
qed

theorem C5_filter_and_candidate_watermark_witness:
  "map get_step (case snd (pull_and_process_messages example_env False example_batch
        (example_world [100])) of Inr batch \<Rightarrow> batch | Inl e \<Rightarrow> [])
     = [JInt 101, JInt 105]
   \<and> map (\<lambda>t. t ''detected_fraud'') (case snd (pull_and_process_messages example_env False
        example_batch (example_world [100])) of Inr batch \<Rightarrow> batch | Inl e \<Rightarrow> [])
     = [Some (JBool False), Some (JBool True)]
   \<and> acked (fst (pull_and_process_messages example_env False example_batch
        (example_world [100]))) = [''a90'', ''a101'', ''a105'']
   \<and> watermark_table (fst (pull_and_process_messages example_env False example_batch
        (example_world [100]))) = [100, 105]
   \<and> get_last_watermark example_env (watermark_table (fst (pull_and_process_messages
        example_env False example_batch (example_world [100])))) = 105"
proof -
  let ?run = "pull_and_process_messages example_env False example_batch (example_world [100])"
  have p: "\<forall>m \<in> set example_batch.
      passes example_env (get_last_watermark example_env (watermark_table (example_world [100]))) m"
    by (simp add: run_defs example_defs engine_defs)
  have w: "get_last_watermark example_env (watermark_table (example_world [100])) = 100"
    by (simp add: run_defs example_defs)
  have n: "filter (newer 100) example_batch = tl example_batch"
    by (simp add: newer_def step_of_def run_defs example_defs)
  have s: "map (\<lambda>m. get_step (scored example_env m)) (tl example_batch) = [JInt 101, JInt 105]"
    "map (\<lambda>m. scored example_env m ''detected_fraud'') (tl example_batch)
       = [Some (JBool False), Some (JBool True)]"
    by (simp_all add: scored_def run_defs example_defs engine_defs)
  have m: "Max (insert 100 (step_num ` set (tl example_batch))) = 105"
    by (simp add: step_num_def step_of_def run_defs example_defs)
  from C5_filter_and_candidate_watermark [OF p]
  have r: "snd ?run = Inr (map (scored example_env) (filter (newer 100) example_batch))"
    and a: "acked (fst ?run) = acked (example_world [100]) @ map ack_id example_batch"
    and t: "watermark_table (fst ?run)
              = (if 100 < Max (insert 100 (step_num ` set (filter (newer 100) example_batch)))
                 then watermark_table (example_world [100])
                        @ [Max (insert 100 (step_num ` set (filter (newer 100) example_batch)))]
                 else watermark_table (example_world [100]))"
    and g: "0 < Max (insert 100 (step_num ` set (filter (newer 100) example_batch)))
              \<longrightarrow> get_last_watermark example_env (watermark_table (fst ?run))
              = Max (insert 100 (step_num ` set (filter (newer 100) example_batch)))"
    unfolding Let_def w by blast+
  from r s have "map get_step (case snd ?run of Inr batch \<Rightarrow> batch | Inl e \<Rightarrow> [])
      = [JInt 101, JInt 105]"
    and "map (\<lambda>t. t ''detected_fraud'') (case snd ?run of Inr batch \<Rightarrow> batch | Inl e \<Rightarrow> [])
      = [Some (JBool False), Some (JBool True)]"
    by (simp_all add: n comp_def)
  moreover from a have "acked (fst ?run) = [''a90'', ''a101'', ''a105'']"
    by (simp add: example_world_def example_batch_def example_msg_def)
  moreover from t have "watermark_table (fst ?run) = [100, 105]"
    by (simp add: n m example_world_def)
  moreover from g have "get_last_watermark example_env (watermark_table (fst ?run)) = 105"
    by (simp add: n m)
  ultimately show ?thesis by blast
qed

text \<open>
  Claim C10, as stated: a message whose step is 0 or absent is never processed, not even
  on the first run against an empty store, and is acknowledged all the same. It fails in
  a process one hour east of UTC, where the empty store reads -3600: the message is scored
  and a watermark row 0 is written; and in a UTC process a step-less message behind a
  message that raises is not acknowledged.
\<close>

theorem C10_step_zero_counterexample:
  "get_last_watermark example_env_east (watermark_table (example_world [])) = - 3600
   \<and> map (\<lambda>t. t ''detected_fraud'')
        (case snd (pull_and_process_messages example_env_east False
                     [example_msg ''a0'' example_no_step] (example_world []))
         of Inr batch \<Rightarrow> batch | Inl e \<Rightarrow> []) = [Some (JBool False)]
   \<and> watermark_table (fst (pull_and_process_messages example_env_east False
        [example_msg ''a0'' example_no_step] (example_world []))) = [0]
   \<and> acked (fst (pull_and_process_messages example_env False
        [example_msg ''a2'' (example_txn 2 ''PAYMENT'' (JStr ''not_a_number'')),
         example_msg ''a0'' example_no_step] (example_world []))) = []"
  by (simp add: run_defs example_defs example_no_step_def engine_defs)

text \<open>
  Claim C10, amended. An empty store reads \<open>datetime(1970, 1, 1).timestamp()\<close>. In a
  cycle whose starting watermark is not negative, a message whose \<open>step\<close> is 0 or absent
  is skipped by the loop without being scored and without an exception; when no message
  before it raises, it is acknowledged; every transaction of a returned batch has a step
  above 0; and the watermark is not negative after the cycle either.
\<close>

theorem C10_step_zero_never_processed:
  assumes "0 \<le> get_last_watermark env (watermark_table s)"
    and "data m = Object d"
    and "d ''step'' = None \<or> (\<exists>v. d ''step'' = Some v \<and> py_num v = Some 0)"
    and "\<forall>x \<in> set pre. passes env (get_last_watermark env (watermark_table s)) x"
    and "pull_and_process_messages env wm_errors (pre @ m # post) s = (s1, r)"
  shows "get_last_watermark env [] = local_epoch env
         \<and> body_result env (get_last_watermark env (watermark_table s)) m = Inr None
         \<and> ack_id m \<in> set (acked s1)
         \<and> (\<forall>batch. r = Inr batch \<longrightarrow>
               (\<forall>t \<in> set batch. \<exists>ts. py_num (get_step t) = Some ts \<and> 0 < ts))
         \<and> 0 \<le> get_last_watermark env (watermark_table s1)"
proof -
  let ?w0 = "get_last_watermark env (watermark_table s)"
  let ?msgs = "pre @ m # post"
  from assms(3) have z: "py_num (get_step d) = Some 0"
    by (auto simp: get_step_def py_num_def)
  with assms(1,2) have b: "body_result env ?w0 m = Inr None"
    by (simp add: body_result_def)
  then have pm: "passes env ?w0 m" by (simp add: passes_def)
  have "takeWhile (passes env ?w0) ?msgs = pre @ m # takeWhile (passes env ?w0) post"
    using assms(4) pm by (simp add: takeWhile_append2)
  with pull_frame(1) [OF assms(5)] have a: "ack_id m \<in> set (acked s1)" by simp
  have c: "\<forall>t \<in> set batch. \<exists>ts. py_num (get_step t) = Some ts \<and> 0 < ts" if "r = Inr batch" for batch
  proof
    fix t assume t: "t \<in> set batch"
    from assms(5) that have run: "pull_and_process_messages env wm_errors ?msgs s = (s1, Inr batch)"
      by simp
    from pull_Inr(2) [OF run] t have "t \<in> scored env ` set (filter (newer ?w0) ?msgs)"
      by (simp only: set_map)
    then obtain x where "x \<in> set (filter (newer ?w0) ?msgs)" and x3: "t = scored env x"
      by blast
    then have x: "x \<in> set ?msgs" "newer ?w0 x" "t = scored env x"
      by (simp_all only: set_filter mem_Collect_eq)
    from pull_Inr(1) [OF run] x(1) have "passes env ?w0 x" by blast
    from scored_step [OF this x(2)] x(3) assms(1)
    show "\<exists>ts. py_num (get_step t) = Some ts \<and> 0 < ts" by auto
  qed
  from pull_watermark_mono [OF assms(5) assms(1)] assms(1)
  have w: "0 \<le> get_last_watermark env (watermark_table s1)" by simp
  have e: "get_last_watermark env [] = local_epoch env" by (simp add: get_last_watermark_def)
  from e b a c w show ?thesis by blast
qed

theorem C10_step_zero_never_processed_witness:
  "acked (fst (pull_and_process_messages example_env False
      [example_msg ''a1'' (example_txn 1 ''PAYMENT'' (JFloat 100)),
       example_msg ''a0'' example_no_step,
       example_msg ''a3'' (example_txn 3 ''PAYMENT'' (JFloat 100))] (example_world [])))
     = [''a1'', ''a0'', ''a3'']
   \<and> body_result example_env 0 (example_msg ''a0'' example_no_step) = Inr None
   \<and> map get_step (case snd (pull_and_process_messages example_env False
      [example_msg ''a1'' (example_txn 1 ''PAYMENT'' (JFloat 100)),
       example_msg ''a0'' example_no_step,
       example_msg ''a3'' (example_txn 3 ''PAYMENT'' (JFloat 100))] (example_world []))
        of Inr batch \<Rightarrow> batch | Inl e \<Rightarrow> []) = [JInt 1, JInt 3]"
proof -
  let ?m1 = "example_msg ''a1'' (example_txn 1 ''PAYMENT'' (JFloat 100))"
  let ?m0 = "example_msg ''a0'' example_no_step"
  let ?m3 = "example_msg ''a3'' (example_txn 3 ''PAYMENT'' (JFloat 100))"
  let ?run = "pull_and_process_messages example_env False [?m1, ?m0, ?m3] (example_world [])"
  have w: "get_last_watermark example_env (watermark_table (example_world [])) = 0"
    by (simp add: run_defs example_defs)
  have h1: "0 \<le> get_last_watermark example_env (watermark_table (example_world []))"
    by (simp add: w)
  have h2: "data ?m0 = Object example_no_step" by (simp add: example_msg_def)
  have h3: "example_no_step ''step'' = None
      \<or> (\<exists>v. example_no_step ''step'' = Some v \<and> py_num v = Some 0)"
    by (simp add: example_no_step_def)
  have h4: "\<forall>x \<in> set [?m1].
      passes example_env (get_last_watermark example_env (watermark_table (example_world []))) x"
    by (simp add: run_defs example_defs engine_defs)
  have h5: "pull_and_process_messages example_env False ([?m1] @ ?m0 # [?m3]) (example_world [])
      = (fst ?run, snd ?run)"
    by simp
  from C10_step_zero_never_processed [OF h1 h2 h3 h4 h5]
  have b: "body_result example_env 0 ?m0 = Inr None" unfolding w by blast
  have v: "?run = ((example_world [])\<lparr>acked := [''a1'', ''a0'', ''a3''], watermark_table := [3]\<rparr>,
      Inr [fst (process_transaction example_env (example_txn 1 ''PAYMENT'' (JFloat 100))),
           fst (process_transaction example_env (example_txn 3 ''PAYMENT'' (JFloat 100)))])"
    by (simp add: run_defs example_defs example_no_step_def engine_defs)
  have g: "get_step (fst (process_transaction example_env (example_txn 1 ''PAYMENT'' (JFloat 100))))
        = JInt 1"
    "get_step (fst (process_transaction example_env (example_txn 3 ''PAYMENT'' (JFloat 100))))
        = JInt 3"
    by (simp_all add: run_defs example_defs engine_defs)
  from b v g show ?thesis by simp
qed

end
